theory Spec2Isabelle
  imports Main "HOL-Library.Multiset"
begin

section \<open>DNS record table: the sorted projection\<close>

text \<open>
  \<^verbatim>\<open>src/components/dns/DnsRecordTable.tsx\<close>. A DNS record as the table reads it
  (\<^verbatim>\<open>record.id\<close>, \<^verbatim>\<open>a.type\<close>, \<^verbatim>\<open>a.name\<close>, \<^verbatim>\<open>a.value\<close>, \<^verbatim>\<open>a.ttl\<close>); the time to
  live is a JavaScript number holding an integer.
\<close>

record DnsRecord =
  rec_id :: string
  rec_type :: string
  rec_name :: string
  rec_value :: string
  rec_ttl :: int

text \<open>
  \<^verbatim>\<open>type SortField = "type" | "name" | "value" | "ttl"\<close> and
  \<^verbatim>\<open>type SortDirection = "asc" | "desc" | null\<close>; the component state
  \<^verbatim>\<open>sortField: SortField | null\<close> and \<^verbatim>\<open>sortDirection\<close> are options, \<open>None\<close>
  standing for \<^verbatim>\<open>null\<close>.
\<close>

datatype SortField = SortType | SortName | SortValue | SortTtl

datatype SortDirection = Asc | Desc

text \<open>
  The comparator handed to \<^verbatim>\<open>Array.prototype.sort\<close> (lines 160 to 191). The two
  values compared are numbers exactly for the field \<^verbatim>\<open>ttl\<close>; every other field is
  compared by \<^verbatim>\<open>String.prototype.localeCompare\<close>, whose collation belongs to the
  platform and is the parameter \<open>localeCompare\<close>.
\<close>

definition compareRecords ::
  "(string \<Rightarrow> string \<Rightarrow> int) \<Rightarrow> SortField \<Rightarrow> SortDirection \<Rightarrow> DnsRecord \<Rightarrow> DnsRecord \<Rightarrow> int" where
  "compareRecords localeCompare sortField sortDirection a b =
     (case sortField of
        SortTtl \<Rightarrow>
          (if sortDirection = Asc then rec_ttl a - rec_ttl b else rec_ttl b - rec_ttl a)
      | SortType \<Rightarrow>
          (let comparison = localeCompare (rec_type a) (rec_type b)
           in if sortDirection = Asc then comparison else - comparison)
      | SortName \<Rightarrow>
          (let comparison = localeCompare (rec_name a) (rec_name b)
           in if sortDirection = Asc then comparison else - comparison)
      | SortValue \<Rightarrow>
          (let comparison = localeCompare (rec_value a) (rec_value b)
           in if sortDirection = Asc then comparison else - comparison))"

text \<open>
  \<^verbatim>\<open>Array.prototype.sort(compareFn)\<close>: a stable sort; an element \<open>x\<close> that stood
  before \<open>y\<close> stays before it unless \<open>compareFn x y\<close> is positive. The model inserts
  from the right, so equal elements keep their order.
\<close>

fun insert_by :: "('a \<Rightarrow> 'a \<Rightarrow> int) \<Rightarrow> 'a \<Rightarrow> 'a list \<Rightarrow> 'a list" where
  "insert_by cmp x [] = [x]"
| "insert_by cmp x (y # ys) =
     (if cmp x y \<le> 0 then x # y # ys else y # insert_by cmp x ys)"

definition array_sort :: "('a \<Rightarrow> 'a \<Rightarrow> int) \<Rightarrow> 'a list \<Rightarrow> 'a list" where
  "array_sort cmp xs = foldr (insert_by cmp) xs []"

text \<open>
  Arrays are objects: the store's \<^verbatim>\<open>records\<close> and the array the view renders are
  references. A heap is the list of all arrays allocated so far, a reference is an
  index into it, and allocation appends.
\<close>

type_synonym heap = "DnsRecord list list"

definition spread_copy :: "heap \<Rightarrow> nat \<Rightarrow> heap \<times> nat" where
  "spread_copy h src = (h @ [h ! src], length h)"

definition sort_in_place :: "(DnsRecord \<Rightarrow> DnsRecord \<Rightarrow> int) \<Rightarrow> heap \<Rightarrow> nat \<Rightarrow> heap \<times> nat" where
  "sort_in_place cmp h arr = (h[arr := array_sort cmp (h ! arr)], arr)"

text \<open>
  \<^verbatim>\<open>sortedRecords\<close> (lines 157 to 192):
  \<^verbatim>\<open>if (!sortField || !sortDirection) return records;
  return [...records].sort((a, b) => ...)\<close>
\<close>

definition sortedRecords ::
  "(string \<Rightarrow> string \<Rightarrow> int) \<Rightarrow> SortField option \<Rightarrow> SortDirection option \<Rightarrow>
     heap \<Rightarrow> nat \<Rightarrow> heap \<times> nat" where
  "sortedRecords localeCompare sortField sortDirection h recordsRef =
     (case sortField of
        None \<Rightarrow> (h, recordsRef)
      | Some f \<Rightarrow>
          (case sortDirection of
             None \<Rightarrow> (h, recordsRef)
           | Some d \<Rightarrow>
               (let (h1, copy) = spread_copy h recordsRef
                in sort_in_place (compareRecords localeCompare f d) h1 copy)))"

section \<open>DNS record table: search box, type filter and debounce\<close>

text \<open>
  The part of the component \<^verbatim>\<open>DnsRecordTable\<close> that issues full fetches: its props
  \<^verbatim>\<open>accountId\<close> and \<^verbatim>\<open>domainId\<close>, the local state \<^verbatim>\<open>searchInput\<close> and
  \<^verbatim>\<open>selectedType\<close>, the one timer owned by the debounced callback, a clock in
  milliseconds, and the calls made to the store action \<^verbatim>\<open>fetchRecords\<close>, oldest first.
  The later revisions of the component (\<^verbatim>\<open>unnamed/part_005\<close>) keep the two filter
  values in the store (\<^verbatim>\<open>keyword\<close>, \<^verbatim>\<open>recordType\<close>, written by \<^verbatim>\<open>setKeyword\<close> and
  \<^verbatim>\<open>setRecordType\<close>); the handlers are otherwise the same, statement for statement.
\<close>

record table_view =
  accountId :: string
  domainId :: string
  searchInput :: string
  selectedType :: string
  pendingSearch :: "(string \<times> nat) option"
  clock :: nat
  fetchCalls :: "(string \<times> string \<times> string \<times> string) list"

text \<open>
  The store action \<^verbatim>\<open>fetchRecords(accountId, domainId, keyword, type)\<close> as the view
  sees it: a call is issued, and recorded with its four arguments. The store itself is
  not under src/; what it does with a call is the subject of the section on the record
  cache.
\<close>

definition fetchRecords :: "string \<Rightarrow> string \<Rightarrow> string \<Rightarrow> string \<Rightarrow> table_view \<Rightarrow> table_view" where
  "fetchRecords aid did keyword recType v =
     v\<lparr>fetchCalls := fetchCalls v @ [(aid, did, keyword, recType)]\<rparr>"

text \<open>The wait passed to \<^verbatim>\<open>useDebouncedCallback\<close> (line 81).\<close>

definition DEBOUNCE_DELAY :: nat where
  "DEBOUNCE_DELAY = 300"

text \<open>
  Modelled from the spec: the hook \<^verbatim>\<open>useDebouncedCallback\<close> comes from the package
  \<^verbatim>\<open>use-debounce\<close>, which is not under src/. Section 4.2: a keyword change
  "schedules a fetch after a fixed quiet period (reference: 300 ms); any call within
  the quiet period cancels the pending timer and reschedules". A call stores its
  argument and (re)starts the timer.
\<close>

definition debouncedSearch :: "string \<Rightarrow> table_view \<Rightarrow> table_view" where
  "debouncedSearch keyword v = v\<lparr>pendingSearch := Some (keyword, clock v + DEBOUNCE_DELAY)\<rparr>"

text \<open>
  Modelled from the spec: the timer of the same hook running out. The wrapped
  callback of lines 79 to 81 runs with the stored argument,
  \<^verbatim>\<open>fetchRecords(accountId, domainId, keyword, selectedType)\<close>, and the timer is gone.
\<close>

definition debounceFires :: "table_view \<Rightarrow> table_view" where
  "debounceFires v =
     (case pendingSearch v of
        None \<Rightarrow> v
      | Some (keyword, due) \<Rightarrow>
          fetchRecords (accountId v) (domainId v) keyword (selectedType v)
            (v\<lparr>pendingSearch := None\<rparr>))"

text \<open>
  Modelled from the spec: time passing with no user input. The timer of the hook fires
  once the quiet period since the last call is over (section 4.2).
\<close>

definition elapse :: "nat \<Rightarrow> table_view \<Rightarrow> table_view" where
  "elapse ms v =
     (let v1 = v\<lparr>clock := clock v + ms\<rparr>
      in case pendingSearch v1 of
           None \<Rightarrow> v1
         | Some (keyword, due) \<Rightarrow> if due \<le> clock v1 then debounceFires v1 else v1)"

text \<open>
  \<^verbatim>\<open>handleSearchChange\<close> (lines 84 to 87):
  \<^verbatim>\<open>setSearchInput(value); debouncedSearch(value);\<close>
\<close>

definition handleSearchChange :: "string \<Rightarrow> table_view \<Rightarrow> table_view" where
  "handleSearchChange value v = debouncedSearch value (v\<lparr>searchInput := value\<rparr>)"

text \<open>
  \<^verbatim>\<open>handleTypeChange\<close> (lines 90 to 94):
  \<^verbatim>\<open>const newType = selectedType === type ? "" : type;
  setSelectedType(newType);
  fetchRecords(accountId, domainId, searchInput, newType);\<close>
\<close>

definition handleTypeChange :: "string \<Rightarrow> table_view \<Rightarrow> table_view" where
  "handleTypeChange type v =
     (let newType = (if selectedType v = type then '''' else type)
      in fetchRecords (accountId v) (domainId v) (searchInput v) newType
           (v\<lparr>selectedType := newType\<rparr>))"

text \<open>
  \<^verbatim>\<open>clearFilters\<close> (lines 97 to 101):
  \<^verbatim>\<open>setSearchInput(""); setSelectedType(""); fetchRecords(accountId, domainId, "", "");\<close>
\<close>

definition clearFilters :: "table_view \<Rightarrow> table_view" where
  "clearFilters v =
     fetchRecords (accountId v) (domainId v) '''' ''''
       (v\<lparr>searchInput := '''', selectedType := ''''\<rparr>)"

text \<open>
  A burst of keyword edits: each edit comes with the time passed since the event
  before it.
\<close>

fun typeBurst :: "(nat \<times> string) list \<Rightarrow> table_view \<Rightarrow> table_view" where
  "typeBurst [] v = v"
| "typeBurst ((gap, value) # rest) v = typeBurst rest (handleSearchChange value (elapse gap v))"

text \<open>A freshly mounted view with nothing typed and no timer.\<close>

definition freshView :: "string \<Rightarrow> string \<Rightarrow> table_view" where
  "freshView aid did =
     \<lparr>accountId = aid, domainId = did, searchInput = '''', selectedType = '''',
      pendingSearch = None, clock = 0, fetchCalls = []\<rparr>"

section \<open>Account store: deleting an account and the restore poller\<close>

text \<open>
  \<^verbatim>\<open>unnamed/part_003\<close>, the zustand store \<^verbatim>\<open>useAccountStore\<close>. An account as the
  sources read it (\<^verbatim>\<open>a.id\<close>, \<^verbatim>\<open>name\<close>, \<^verbatim>\<open>provider\<close>, \<^verbatim>\<open>a.status\<close>).
\<close>

record Account =
  acc_id :: string
  acc_name :: string
  acc_provider :: string
  acc_status :: string

text \<open>
  What a remote call settles with. A resolved \<^verbatim>\<open>delete_account\<close> carries the field
  \<^verbatim>\<open>success\<close> of its \<^verbatim>\<open>ApiResponse\<close>, a resolved \<^verbatim>\<open>is_restore_completed\<close> carries
  its boolean. A rejected call carries the message of the error thrown.
\<close>

datatype response = Resolved bool | Rejected string

text \<open>
  The remote calls the store awaits: the first check of \<^verbatim>\<open>checkRestoreStatus\<close>, the
  check made by one run of the interval callback (tagged with its interval handle
  \<^verbatim>\<open>poll\<close>), and the call of \<^verbatim>\<open>deleteAccount(id)\<close>.
\<close>

datatype request = FirstCheck | PollCheck nat | DeleteCall string

datatype toast = ToastSuccess string | ToastError string

text \<open>
  The store fields the claims read, followed by the collaborators the actions reach:
  the per-key caches emptied by \<^verbatim>\<open>clearAccountCache\<close>, the recently viewed domains,
  the toasts shown, the lines written by \<^verbatim>\<open>logger.error\<close>, the commands passed to
  \<^verbatim>\<open>transport.invoke\<close> (oldest first), the calls not yet settled, and the active
  interval timers with the next handle \<^verbatim>\<open>setInterval\<close> gives out. The store field
  \<^verbatim>\<open>isLoading\<close> is called \<open>isLoadingAccounts\<close> here.
\<close>

record app =
  accounts :: "Account list"
  selectedAccountId :: "string option"
  isLoadingAccounts :: bool
  isDeleting :: bool
  isRestoring :: bool
  error :: "string option"
  domainCaches :: "((string \<times> string) \<times> DnsRecord list) list"
  recentDomains :: "(string \<times> string) list"
  toasts :: "toast list"
  logged :: "string list"
  invoked :: "string list"
  unsettled :: "request list"
  intervals :: "nat list"
  nextInterval :: nat

text \<open>The initial store (lines 60 to 70) in an environment where nothing happened yet.\<close>

definition initialApp :: app where
  "initialApp =
     \<lparr>accounts = [], selectedAccountId = None, isLoadingAccounts = False,
      isDeleting = False, isRestoring = False, error = None,
      domainCaches = [], recentDomains = [], toasts = [], logged = [],
      invoked = [], unsettled = [], intervals = [], nextInterval = 0\<rparr>"

text \<open>
  \<^verbatim>\<open>await transport.invoke(command)\<close>: the command goes out and the caller is
  suspended until the call settles.
\<close>

definition invoke :: "string \<Rightarrow> request \<Rightarrow> app \<Rightarrow> app" where
  "invoke command req w =
     w\<lparr>invoked := invoked w @ [command], unsettled := unsettled w @ [req]\<rparr>"

definition toast_success :: "string \<Rightarrow> app \<Rightarrow> app" where
  "toast_success msg w = w\<lparr>toasts := toasts w @ [ToastSuccess msg]\<rparr>"

definition toast_error :: "string \<Rightarrow> app \<Rightarrow> app" where
  "toast_error msg w = w\<lparr>toasts := toasts w @ [ToastError msg]\<rparr>"

definition logger_error :: "string \<Rightarrow> app \<Rightarrow> app" where
  "logger_error msg w = w\<lparr>logged := logged w @ [msg]\<rparr>"

definition setInterval :: "app \<Rightarrow> app \<times> nat" where
  "setInterval w =
     (w\<lparr>intervals := intervals w @ [nextInterval w], nextInterval := Suc (nextInterval w)\<rparr>,
      nextInterval w)"

definition clearInterval :: "nat \<Rightarrow> app \<Rightarrow> app" where
  "clearInterval handle w = w\<lparr>intervals := removeAll handle (intervals w)\<rparr>"

text \<open>
  Modelled from the spec: \<^verbatim>\<open>useDomainStore.getState().clearAccountCache\<close> lives in the
  domain store, which is not under src/. Section 4.7: "invalidate every
  DomainRecordCache keyed by that accountId (all domains)"; a key is the pair
  (accountId, domainId).
\<close>

definition clearAccountCache :: "string \<Rightarrow> app \<Rightarrow> app" where
  "clearAccountCache aid w =
     w\<lparr>domainCaches := filter (\<lambda>entry. fst (fst entry) \<noteq> aid) (domainCaches w)\<rparr>"

text \<open>
  Modelled from the spec: \<^verbatim>\<open>removeRecentDomainsByAccount\<close> lives in
  \<^verbatim>\<open>lib/recent-domains\<close>, which is not under src/. Section 4.7: "purge any recently
  viewed domain memory referencing that account"; an entry is the pair
  (accountId, domainId).
\<close>

definition removeRecentDomainsByAccount :: "string \<Rightarrow> app \<Rightarrow> app" where
  "removeRecentDomainsByAccount aid w =
     w\<lparr>recentDomains := filter (\<lambda>entry. fst entry \<noteq> aid) (recentDomains w)\<rparr>"

text \<open>
  \<^verbatim>\<open>fetchAccounts\<close> (lines 72 to 97) up to its first \<^verbatim>\<open>await\<close>:
  \<^verbatim>\<open>set({ isLoading: true, error: null })\<close>, then \<^verbatim>\<open>list_accounts\<close> goes out. No caller
  in this store awaits it, and what it does with the answer is outside this model.
\<close>

definition fetchAccounts :: "app \<Rightarrow> app" where
  "fetchAccounts w =
     w\<lparr>isLoadingAccounts := True, error := None, invoked := invoked w @ [''list_accounts'']\<rparr>"

subsection \<open>deleteAccount (lines 143 to 167)\<close>

text \<open>
  Up to the \<^verbatim>\<open>await\<close>: \<^verbatim>\<open>set({ isDeleting: true })\<close> and the remote call. The
  parameter \<^verbatim>\<open>id\<close> of the source is written \<open>aid\<close>.
\<close>

definition deleteAccount :: "string \<Rightarrow> app \<Rightarrow> app" where
  "deleteAccount aid w = invoke ''delete_account'' (DeleteCall aid) (w\<lparr>isDeleting := True\<rparr>)"

text \<open>
  From the \<^verbatim>\<open>await\<close> to the end, in one run with no further \<^verbatim>\<open>await\<close>: the
  \<^verbatim>\<open>try\<close> body on a resolved call, the \<^verbatim>\<open>catch\<close> on a rejected one, then the
  \<^verbatim>\<open>finally\<close>. The boolean is the value the promise of \<^verbatim>\<open>deleteAccount\<close> resolves
  to. The two toast texts are the translation keys.
\<close>

definition deleteAccount_resume :: "string \<Rightarrow> response \<Rightarrow> app \<Rightarrow> app \<times> bool" where
  "deleteAccount_resume aid resp w =
     (let (w1, result) =
        (case resp of
           Resolved success \<Rightarrow>
             if success then
               (let w2 = w\<lparr>accounts := filter (\<lambda>a. acc_id a \<noteq> aid) (accounts w),
                           selectedAccountId :=
                             (if selectedAccountId w = Some aid then None
                              else selectedAccountId w)\<rparr>;
                    w3 = clearAccountCache aid w2;
                    w4 = removeRecentDomainsByAccount aid w3
                in (toast_success ''account.deleteSuccess'' w4, True))
             else (toast_error ''account.deleteFailed'' w, False)
         | Rejected err \<Rightarrow> (toast_error err w, False))
      in (w1\<lparr>isDeleting := False\<rparr>, result))"

subsection \<open>checkRestoreStatus (lines 178 to 202)\<close>

text \<open>
  Up to the \<^verbatim>\<open>await\<close> of line 179: the first status check goes out. Nothing is read
  from the store before it.
\<close>

definition checkRestoreStatus :: "app \<Rightarrow> app" where
  "checkRestoreStatus w = invoke ''is_restore_completed'' FirstCheck w"

text \<open>
  Lines 180 to 202, once the first check has settled. That \<^verbatim>\<open>await\<close> stands outside
  any \<^verbatim>\<open>try\<close>: a rejection leaves the function at once and becomes the rejection of
  the promise of \<^verbatim>\<open>checkRestoreStatus\<close> (second component \<open>Some err\<close>).
\<close>

definition checkRestoreStatus_resume :: "response \<Rightarrow> app \<Rightarrow> app \<times> string option" where
  "checkRestoreStatus_resume resp w =
     (case resp of
        Rejected err \<Rightarrow> (w, Some err)
      | Resolved completed \<Rightarrow>
          if completed then (fetchAccounts w, None)
          else (fst (setInterval (w\<lparr>isRestoring := True\<rparr>)), None))"

text \<open>
  One run of the interval callback (lines 188 to 200) up to its \<^verbatim>\<open>await\<close>: another
  status check goes out.
\<close>

definition pollTick :: "nat \<Rightarrow> app \<Rightarrow> app" where
  "pollTick poll w = invoke ''is_restore_completed'' (PollCheck poll) w"

text \<open>
  The rest of that run, once its check has settled: the \<^verbatim>\<open>try\<close> body, or the
  \<^verbatim>\<open>catch\<close> with \<^verbatim>\<open>logger.error\<close>.
\<close>

definition pollTick_resume :: "nat \<Rightarrow> response \<Rightarrow> app \<Rightarrow> app" where
  "pollTick_resume poll resp w =
     (case resp of
        Resolved done \<Rightarrow>
          if done then fetchAccounts ((clearInterval poll w)\<lparr>isRestoring := False\<rparr>)
          else w
      | Rejected err \<Rightarrow>
          (clearInterval poll
             (logger_error (''Failed to check restore status: '' @ err) w))\<lparr>isRestoring := False\<rparr>)"

subsection \<open>The event loop\<close>

text \<open>
  JavaScript runs one task at a time. A task is a call of a store action up to its
  \<^verbatim>\<open>await\<close>, an interval timer firing, or the continuation of an action whose remote
  call has settled. A timer fires only while it is active, and only a call that is
  out can settle.
\<close>

datatype event =
    CallCheckRestoreStatus
  | CallDeleteAccount string
  | IntervalFires nat
  | Settles request response

fun resume :: "request \<Rightarrow> response \<Rightarrow> app \<Rightarrow> app" where
  "resume FirstCheck resp w = fst (checkRestoreStatus_resume resp w)"
| "resume (PollCheck poll) resp w = pollTick_resume poll resp w"
| "resume (DeleteCall aid) resp w = fst (deleteAccount_resume aid resp w)"

fun step :: "event \<Rightarrow> app \<Rightarrow> app option" where
  "step CallCheckRestoreStatus w = Some (checkRestoreStatus w)"
| "step (CallDeleteAccount aid) w = Some (deleteAccount aid w)"
| "step (IntervalFires poll) w =
     (if poll \<in> set (intervals w) then Some (pollTick poll w) else None)"
| "step (Settles req resp) w =
     (if req \<in> set (unsettled w)
      then Some (resume req resp (w\<lparr>unsettled := remove1 req (unsettled w)\<rparr>))
      else None)"

fun run :: "event list \<Rightarrow> app \<Rightarrow> app option" where
  "run [] w = Some w"
| "run (e # es) w = (case step e w of None \<Rightarrow> None | Some w' \<Rightarrow> run es w')"

text \<open>What the restore claims observe of a state.\<close>

definition statusChecks :: "app \<Rightarrow> nat" where
  "statusChecks w = count_list (invoked w) ''is_restore_completed''"

definition initialLoads :: "app \<Rightarrow> nat" where
  "initialLoads w = count_list (invoked w) ''list_accounts''"

definition restoreView :: "app \<Rightarrow> bool \<times> nat list \<times> nat \<times> nat \<times> string list" where
  "restoreView w = (isRestoring w, intervals w, statusChecks w, initialLoads w, logged w)"

text \<open>
  A schedule in which the polls do not overlap: each check made by the interval
  callback settles, with the answer "not completed", before the timer fires again.
\<close>

fun quietPolls :: "nat \<Rightarrow> nat \<Rightarrow> event list" where
  "quietPolls poll 0 = []"
| "quietPolls poll (Suc n) =
     IntervalFires poll # Settles (PollCheck poll) (Resolved False) # quietPolls poll n"

text \<open>
  The store while such a schedule runs: restoring, with the one timer \<open>poll\<close>
  active, no call out, \<open>n\<close> status checks made so far, and neither an initial load
  nor a diagnostic yet.
\<close>

definition polling :: "nat \<Rightarrow> nat \<Rightarrow> app \<Rightarrow> bool" where
  "polling poll n w \<longleftrightarrow>
     isRestoring w \<and> intervals w = [poll] \<and> unsettled w = [] \<and> statusChecks w = n
     \<and> initialLoads w = 0 \<and> logged w = []"



section \<open>The record cache of one key and its fetch sequencer\<close>

text \<open>
  The store behind \<^verbatim>\<open>useDnsStore\<close> (\<^verbatim>\<open>fetchRecords\<close>, \<^verbatim>\<open>fetchMoreRecords\<close>) is not
  under src/; its only trace there is the component that calls it. Everything in this
  section except \<open>handleObserver\<close> follows sections 3, 4.1, 4.3 and 7 of the
  specification, for the cache of one key (accountId, domainId).
\<close>

text \<open>
  Modelled from the spec: the answer of the remote operation \<^verbatim>\<open>list_records\<close>, whose
  caller is not under src/. Section 6:
  \<^verbatim>\<open>list_records(...) -> { items, totalCount, nextCursor, hasMore }\<close>; section 5: "a
  transport failure" is "a terminal rejection of that call".
\<close>

record page_result =
  res_items :: "DnsRecord list"
  res_totalCount :: nat
  res_nextCursor :: nat
  res_hasMore :: bool

datatype fetch_response = Fetched page_result | FetchFailed string

text \<open>
  Modelled from the spec: the two kinds of fetch of the glossary, the full fetch and
  the append fetch ("load more").
\<close>

datatype fetch_kind = Full | Append

text \<open>
  Modelled from the spec: the token of the FetchSequencer, which is not under src/.
  Section 4.1: "A token captures the loadGeneration at issue time". It also carries
  the kind of fetch and the filters the fetch was issued with, which a commit echoes.
\<close>

record fetch_token =
  tok_kind :: fetch_kind
  tok_generation :: nat
  tok_keyword :: string
  tok_type :: string

text \<open>
  Modelled from the spec: the DomainRecordCache of section 3, which is not under src/,
  with the fetches that are out and not yet answered.
\<close>

record DomainRecordCache =
  records :: "DnsRecord list"
  filterKeyword :: string
  filterType :: string
  pageCursor :: nat
  totalCount :: nat
  hasMore :: bool
  loadGeneration :: nat
  inFlight :: "fetch_token list"

text \<open>
  Modelled from the spec: the cache of a key before its first fetch; the specification
  gives no initial values, these are the empty ones.
\<close>

definition emptyCache :: DomainRecordCache where
  "emptyCache =
     \<lparr>records = [], filterKeyword = '''', filterType = '''', pageCursor = 0,
      totalCount = 0, hasMore = False, loadGeneration = 0, inFlight = []\<rparr>"

text \<open>
  Modelled from the spec: what the views read of a cache (section 6, "read-only
  projections"), which is the state shared between the controller and the views.
\<close>

definition sharedState ::
  "DomainRecordCache \<Rightarrow> DnsRecord list \<times> string \<times> string \<times> nat \<times> nat \<times> bool" where
  "sharedState c =
     (records c, filterKeyword c, filterType c, pageCursor c, totalCount c, hasMore c)"

text \<open>
  Modelled from the spec: section 4.1, \<^verbatim>\<open>beginFetch(key) -> token\<close>.
\<close>

definition beginFetch :: "fetch_kind \<Rightarrow> string \<Rightarrow> string \<Rightarrow> DomainRecordCache \<Rightarrow> fetch_token" where
  "beginFetch kind keyword recType c =
     \<lparr>tok_kind = kind, tok_generation = loadGeneration c,
      tok_keyword = keyword, tok_type = recType\<rparr>"

text \<open>
  Modelled from the spec: section 4.1, a result is discarded "if the cache's current
  loadGeneration for key has advanced past the token's generation". (The other ground
  given there, the key no longer being the active one, concerns several keys; this is
  the cache of one.)
\<close>

definition superseded :: "DomainRecordCache \<Rightarrow> fetch_token \<Rightarrow> bool" where
  "superseded c t = (tok_generation t < loadGeneration c)"

text \<open>
  Modelled from the spec: a fetch is in flight from the moment it is issued until its
  answer arrives, whether or not a later full fetch has superseded it in between.
  Section 5: cancellation "means ignoring the eventual response, not aborting the
  in-flight call"; section 4.3 speaks of "a loadFull issued while an loadMore is in
  flight" whose answer is then rejected.
\<close>

definition fetchesOut :: "fetch_kind \<Rightarrow> DomainRecordCache \<Rightarrow> fetch_token list" where
  "fetchesOut kind c = filter (\<lambda>t. tok_kind t = kind) (inFlight c)"

definition outCount :: "fetch_kind \<Rightarrow> DomainRecordCache \<Rightarrow> nat" where
  "outCount kind c = length (fetchesOut kind c)"

text \<open>
  Modelled from the spec: the projections \<^verbatim>\<open>isLoading\<close> and \<^verbatim>\<open>isLoadingMore\<close> the
  store exposes to the views (section 6): a full fetch, or an append fetch, is in
  flight.
\<close>

definition isLoading :: "DomainRecordCache \<Rightarrow> bool" where
  "isLoading c = (fetchesOut Full c \<noteq> [])"

definition isLoadingMore :: "DomainRecordCache \<Rightarrow> bool" where
  "isLoadingMore c = (fetchesOut Append c \<noteq> [])"

text \<open>
  The full fetches in flight that no later full fetch has superseded: the ones whose
  answer \<open>commit\<close> would still accept.
\<close>

definition currentFull :: "DomainRecordCache \<Rightarrow> fetch_token list" where
  "currentFull c = filter (\<lambda>t. \<not> superseded c t) (fetchesOut Full c)"

text \<open>
  Modelled from the spec: section 4.1, \<^verbatim>\<open>commit(token, key, result) -> accepted\<close>,
  with the merge of section 4.3. An accepted full fetch "replaces records, totalCount,
  hasMore, echoes the filters used"; an accepted append "appends to records (never
  replaces), advances cursor, recomputes hasMore".
\<close>

definition commit :: "fetch_token \<Rightarrow> page_result \<Rightarrow> DomainRecordCache \<Rightarrow> DomainRecordCache \<times> bool" where
  "commit t res c =
     (if superseded c t then (c, False)
      else
        (case tok_kind t of
           Full \<Rightarrow>
             (c\<lparr>records := res_items res, totalCount := res_totalCount res,
                hasMore := res_hasMore res, filterKeyword := tok_keyword t,
                filterType := tok_type t, pageCursor := res_nextCursor res\<rparr>, True)
         | Append \<Rightarrow>
             (c\<lparr>records := records c @ res_items res, pageCursor := res_nextCursor res,
                hasMore := res_hasMore res\<rparr>, True)))"

text \<open>
  Modelled from the spec: section 4.3, \<^verbatim>\<open>loadFull(key, keyword, type)\<close> up to its
  remote call: "increments loadGeneration, clears records, issues a fetch for page 1
  with the given filters".
\<close>

definition loadFull :: "string \<Rightarrow> string \<Rightarrow> DomainRecordCache \<Rightarrow> DomainRecordCache \<times> fetch_token" where
  "loadFull keyword recType c =
     (let c1 = c\<lparr>loadGeneration := Suc (loadGeneration c), records := []\<rparr>;
          t = beginFetch Full keyword recType c1
      in (c1\<lparr>inFlight := inFlight c1 @ [t]\<rparr>, t))"

text \<open>
  Modelled from the spec: section 4.3, \<^verbatim>\<open>loadMore(key)\<close> up to its remote call:
  "no-op if hasMore is false or a full/append fetch is already in flight; otherwise
  fetches the next page using current filters and cursor". This is the store action
  \<^verbatim>\<open>fetchMoreRecords\<close>.
\<close>

definition fetchMoreRecords :: "DomainRecordCache \<Rightarrow> DomainRecordCache \<times> fetch_token option" where
  "fetchMoreRecords c =
     (if \<not> hasMore c \<or> isLoading c \<or> isLoadingMore c then (c, None)
      else
        (let t = beginFetch Append (filterKeyword c) (filterType c) c
         in (c\<lparr>inFlight := inFlight c @ [t]\<rparr>, Some t)))"

text \<open>
  Modelled from the spec: the answer to a fetch arriving. The fetch is no longer out;
  a failure leaves the cache untouched (section 7), a result goes through
  \<open>commit\<close>.
\<close>

definition respond :: "fetch_token \<Rightarrow> fetch_response \<Rightarrow> DomainRecordCache \<Rightarrow> DomainRecordCache" where
  "respond t r c =
     (let c1 = c\<lparr>inFlight := remove1 t (inFlight c)\<rparr>
      in case r of
           FetchFailed err \<Rightarrow> c1
         | Fetched res \<Rightarrow> fst (commit t res c1))"

text \<open>
  \<^verbatim>\<open>handleObserver\<close> of \<^verbatim>\<open>DnsRecordTable.tsx\<close> (lines 111 to 119), the
  infinite-scroll trigger:
  \<^verbatim>\<open>if (entry.isIntersecting && hasMore && !isLoadingMore)
    fetchMoreRecords(accountId, domainId)\<close>.
  The callback is memoised by \<^verbatim>\<open>useCallback\<close>: the \<^verbatim>\<open>hasMore\<close> and
  \<^verbatim>\<open>isLoadingMore\<close> it tests are the values the component read from the store at
  its last render, here \<open>seenHasMore\<close> and \<open>seenLoadingMore\<close>; the store action it
  calls works on the cache as it is now.
\<close>

definition handleObserver ::
  "bool \<Rightarrow> bool \<Rightarrow> bool \<Rightarrow> DomainRecordCache \<Rightarrow> DomainRecordCache" where
  "handleObserver isIntersecting seenHasMore seenLoadingMore c =
     (if isIntersecting \<and> seenHasMore \<and> \<not> seenLoadingMore then fst (fetchMoreRecords c)
      else c)"

text \<open>
  The intents and answers that reach the cache of one key, one at a time (section 5:
  one logical thread, suspension only at the remote calls). An answer can only arrive
  for a fetch that is out. The sentinel row can come into view at any time, with any
  values of the two flags left from the last render.
\<close>

datatype cache_event =
    LoadFull string string
  | LoadMore
  | Observer bool bool bool
  | Answer fetch_token fetch_response

fun cacheStep :: "cache_event \<Rightarrow> DomainRecordCache \<Rightarrow> DomainRecordCache option" where
  "cacheStep (LoadFull keyword recType) c = Some (fst (loadFull keyword recType c))"
| "cacheStep LoadMore c = Some (fst (fetchMoreRecords c))"
| "cacheStep (Observer isIntersecting seenHasMore seenLoadingMore) c =
     Some (handleObserver isIntersecting seenHasMore seenLoadingMore c)"
| "cacheStep (Answer t r) c =
     (if t \<in> set (inFlight c) then Some (respond t r c) else None)"

fun cacheRun :: "cache_event list \<Rightarrow> DomainRecordCache \<Rightarrow> DomainRecordCache option" where
  "cacheRun [] c = Some c"
| "cacheRun (e # es) c = (case cacheStep e c of None \<Rightarrow> None | Some c' \<Rightarrow> cacheRun es c')"



section \<open>Properties of the sorted projection\<close>

lemma mset_insert_by: "mset (insert_by cmp x ys) = add_mset x (mset ys)"
  by (induction ys) simp_all

lemma mset_array_sort: "mset (array_sort cmp xs) = mset xs"
  by (induction xs) (simp_all add: array_sort_def mset_insert_by)

text \<open>
  C9. With no sort field or no direction the projection is the very array of the
  store (same reference, heap untouched). With both set, the result is a newly
  allocated array, a permutation of the store's records, and every array that existed
  before, the store's records among them, is left as it was.
\<close>

theorem sortedRecords_read_only:
  assumes "recordsRef < length h"
  shows "sortedRecords lc None sd h recordsRef = (h, recordsRef)
       \<and> sortedRecords lc sf None h recordsRef = (h, recordsRef)
       \<and> (case sortedRecords lc (Some f) (Some d) h recordsRef of
            (h', sortedRef) \<Rightarrow>
                sortedRef = length h
              \<and> sortedRef \<noteq> recordsRef
              \<and> length h' = Suc (length h)
              \<and> mset (h' ! sortedRef) = mset (h ! recordsRef)
              \<and> take (length h) h' = h
              \<and> h' ! recordsRef = h ! recordsRef)"
proof -
  have none1: "sortedRecords lc None sd h recordsRef = (h, recordsRef)"
    by (simp add: sortedRecords_def)
  have none2: "sortedRecords lc sf None h recordsRef = (h, recordsRef)"
    by (cases sf) (simp_all add: sortedRecords_def)
  let ?cmp = "compareRecords lc f d"
  let ?h1 = "h @ [h ! recordsRef]"
  have run: "sortedRecords lc (Some f) (Some d) h recordsRef =
               (?h1[length h := array_sort ?cmp (h ! recordsRef)], length h)"
    by (simp add: sortedRecords_def spread_copy_def sort_in_place_def)
  have upd: "?h1[length h := array_sort ?cmp (h ! recordsRef)] =
               h @ [array_sort ?cmp (h ! recordsRef)]"
    by (simp add: list_update_append)
  have some: "case sortedRecords lc (Some f) (Some d) h recordsRef of
            (h', sortedRef) \<Rightarrow>
                sortedRef = length h
              \<and> sortedRef \<noteq> recordsRef
              \<and> length h' = Suc (length h)
              \<and> mset (h' ! sortedRef) = mset (h ! recordsRef)
              \<and> take (length h) h' = h
              \<and> h' ! recordsRef = h ! recordsRef"
    using assms by (simp add: run upd mset_array_sort nth_append)
  from none1 none2 some show ?thesis by blast
qed

text \<open>
  The theorem at a heap holding one array of two records, sorted by ascending time to
  live: the view gets the new array at reference 1, the store's array at reference 0
  keeps its order.
\<close>

theorem sortedRecords_read_only_witness:
  "(0::nat) < length [[\<lparr>rec_id = ''2'', rec_type = ''MX'', rec_name = ''b'', rec_value = ''y'', rec_ttl = 600\<rparr>,
                       \<lparr>rec_id = ''1'', rec_type = ''A'', rec_name = ''a'', rec_value = ''x'', rec_ttl = 60\<rparr>]]
   \<and> snd (sortedRecords (\<lambda>a b. 0) (Some SortTtl) (Some Asc)
        [[\<lparr>rec_id = ''2'', rec_type = ''MX'', rec_name = ''b'', rec_value = ''y'', rec_ttl = 600\<rparr>,
          \<lparr>rec_id = ''1'', rec_type = ''A'', rec_name = ''a'', rec_value = ''x'', rec_ttl = 60\<rparr>]] 0) = 1
   \<and> fst (sortedRecords (\<lambda>a b. 0) (Some SortTtl) (Some Asc)
        [[\<lparr>rec_id = ''2'', rec_type = ''MX'', rec_name = ''b'', rec_value = ''y'', rec_ttl = 600\<rparr>,
          \<lparr>rec_id = ''1'', rec_type = ''A'', rec_name = ''a'', rec_value = ''x'', rec_ttl = 60\<rparr>]] 0) ! 0
       = [\<lparr>rec_id = ''2'', rec_type = ''MX'', rec_name = ''b'', rec_value = ''y'', rec_ttl = 600\<rparr>,
          \<lparr>rec_id = ''1'', rec_type = ''A'', rec_name = ''a'', rec_value = ''x'', rec_ttl = 60\<rparr>]"
  using sortedRecords_read_only
    [of 0 "[[\<lparr>rec_id = ''2'', rec_type = ''MX'', rec_name = ''b'', rec_value = ''y'', rec_ttl = 600\<rparr>,
             \<lparr>rec_id = ''1'', rec_type = ''A'', rec_name = ''a'', rec_value = ''x'', rec_ttl = 60\<rparr>]]"
        "\<lambda>a b. 0" None None SortTtl Asc]
  by (simp split: prod.splits)

section \<open>Properties of the search box and the type filter\<close>

lemma elapse_quiet:
  assumes "pendingSearch v = Some (kw, clock v + DEBOUNCE_DELAY)" and "gap < DEBOUNCE_DELAY"
  shows "elapse gap v = v\<lparr>clock := clock v + gap\<rparr>"
  using assms by (simp add: elapse_def Let_def)

lemma typeBurst_quiet:
  assumes "pendingSearch v = Some (kw, clock v + DEBOUNCE_DELAY)"
      and "\<forall>e \<in> set rest. fst e < DEBOUNCE_DELAY"
  shows "fetchCalls (typeBurst rest v) = fetchCalls v
       \<and> accountId (typeBurst rest v) = accountId v
       \<and> domainId (typeBurst rest v) = domainId v
       \<and> selectedType (typeBurst rest v) = selectedType v
       \<and> searchInput (typeBurst rest v) = last (searchInput v # map snd rest)
       \<and> pendingSearch (typeBurst rest v) =
           Some (last (kw # map snd rest), clock (typeBurst rest v) + DEBOUNCE_DELAY)"
  using assms
proof (induction rest arbitrary: v kw)
  case Nil
  then show ?case by simp
next
  case (Cons e rest)
  obtain gap val where e: "e = (gap, val)" by (cases e)
  from Cons.prems e have gap: "gap < DEBOUNCE_DELAY" by simp
  let ?v1 = "handleSearchChange val (elapse gap v)"
  have v1: "?v1 = v\<lparr>clock := clock v + gap, searchInput := val,
                     pendingSearch := Some (val, clock v + gap + DEBOUNCE_DELAY)\<rparr>"
    using elapse_quiet[OF Cons.prems(1) gap]
    by (simp add: handleSearchChange_def debouncedSearch_def)
  have p1: "pendingSearch ?v1 = Some (val, clock ?v1 + DEBOUNCE_DELAY)"
    by (simp add: v1)
  have r: "\<forall>e \<in> set rest. fst e < DEBOUNCE_DELAY" using Cons.prems by simp
  from Cons.IH[OF p1 r] show ?case
    by (simp add: e v1)
qed

lemma debounce_fires_after_silence:
  assumes "pendingSearch v = Some (kw, clock v + DEBOUNCE_DELAY)" and "DEBOUNCE_DELAY \<le> silence"
  shows "fetchCalls (elapse silence v) = fetchCalls v @ [(accountId v, domainId v, kw, selectedType v)]
       \<and> pendingSearch (elapse silence v) = None"
  using assms by (simp add: elapse_def Let_def debounceFires_def fetchRecords_def)

text \<open>
  C7. A burst of keyword edits into a view with no timer pending, each edit after the
  first less than the quiet period after the one before it, and then silence for at
  least the quiet period: no fetch goes out during the burst, and exactly one goes out
  in the silence, with the last keyword typed.
\<close>

theorem debounce_coalescing:
  assumes "pendingSearch v = None"
      and "burst \<noteq> []"
      and "\<forall>e \<in> set (tl burst). fst e < DEBOUNCE_DELAY"
      and "DEBOUNCE_DELAY \<le> silence"
  shows "fetchCalls (typeBurst burst v) = fetchCalls v
       \<and> fetchCalls (elapse silence (typeBurst burst v)) =
           fetchCalls v @ [(accountId v, domainId v, snd (last burst), selectedType v)]
       \<and> pendingSearch (elapse silence (typeBurst burst v)) = None"
proof -
  from assms(2) obtain gap val rest where b: "burst = (gap, val) # rest"
    by (cases burst) auto
  let ?v1 = "handleSearchChange val (elapse gap v)"
  have v1: "?v1 = v\<lparr>clock := clock v + gap, searchInput := val,
                     pendingSearch := Some (val, clock v + gap + DEBOUNCE_DELAY)\<rparr>"
    using assms(1) by (simp add: handleSearchChange_def debouncedSearch_def elapse_def Let_def)
  have p1: "pendingSearch ?v1 = Some (val, clock ?v1 + DEBOUNCE_DELAY)"
    by (simp add: v1)
  have r: "\<forall>e \<in> set rest. fst e < DEBOUNCE_DELAY" using assms(3) b by simp
  note q = typeBurst_quiet[OF p1 r]
  have lastkw: "last (val # map snd rest) = snd (last burst)"
    by (simp add: b last_map)
  have tb: "typeBurst burst v = typeBurst rest ?v1" by (simp add: b)
  from q have pend: "pendingSearch (typeBurst burst v) =
      Some (snd (last burst), clock (typeBurst burst v) + DEBOUNCE_DELAY)"
    by (simp add: tb lastkw del: last.simps)
  from q have same: "fetchCalls (typeBurst burst v) = fetchCalls v"
      "accountId (typeBurst burst v) = accountId v"
      "domainId (typeBurst burst v) = domainId v"
      "selectedType (typeBurst burst v) = selectedType v"
    by (simp_all add: tb v1)
  from debounce_fires_after_silence[OF pend assms(4)] same show ?thesis by simp
qed

text \<open>
  The theorem at the burst "e", "ex", "exa", typed 100 ms apart into a fresh view, and
  300 ms of silence.
\<close>

theorem debounce_coalescing_witness:
  "pendingSearch (freshView ''acc'' ''example.com'') = None
   \<and> [(0, ''e''), (100, ''ex''), (100, ''exa'')] \<noteq> []
   \<and> fetchCalls (typeBurst [(0, ''e''), (100, ''ex''), (100, ''exa'')] (freshView ''acc'' ''example.com'')) = []
   \<and> fetchCalls (elapse 300 (typeBurst [(0, ''e''), (100, ''ex''), (100, ''exa'')]
        (freshView ''acc'' ''example.com''))) = [(''acc'', ''example.com'', ''exa'', '''')]"
  using debounce_coalescing
    [of "freshView ''acc'' ''example.com''" "[(0, ''e''), (100, ''ex''), (100, ''exa'')]" 300]
  by (simp add: freshView_def DEBOUNCE_DELAY_def)


text \<open>
  C4 as stated fails. A keyword is typed, and 100 ms later, inside the quiet period,
  the type filter A is chosen. The filter action fetches at once, but the timer of the
  debounced search is still pending after it, and 200 ms later it fires a second fetch
  with the same keyword and type.
\<close>

theorem filter_action_cancels_debounce_counterexample:
  "pendingSearch (handleTypeChange ''A'' (elapse 100
       (handleSearchChange ''ex'' (freshView ''acc'' ''example.com'')))) = Some (''ex'', 300)
   \<and> fetchCalls (elapse 200 (handleTypeChange ''A'' (elapse 100
       (handleSearchChange ''ex'' (freshView ''acc'' ''example.com''))))) =
       [(''acc'', ''example.com'', ''ex'', ''A''), (''acc'', ''example.com'', ''ex'', ''A'')]"
  by (simp add: handleTypeChange_def handleSearchChange_def debouncedSearch_def elapse_def
      debounceFires_def fetchRecords_def freshView_def DEBOUNCE_DELAY_def Let_def)

text \<open>
  C4 as amended. A type-filter change fetches at once with the keyword in the search
  box and the new type, and clearing the filters fetches at once with both empty.
  Neither touches the timer of the debounced search: a timer that is pending stays
  pending, and when it becomes due it fires one more fetch with the keyword it holds.
\<close>

theorem filter_action_fetches_and_keeps_timer:
  "fetchCalls (handleTypeChange ty v) =
     fetchCalls v @ [(accountId v, domainId v, searchInput v, if selectedType v = ty then '''' else ty)]
   \<and> pendingSearch (handleTypeChange ty v) = pendingSearch v
   \<and> fetchCalls (clearFilters v) = fetchCalls v @ [(accountId v, domainId v, '''', '''')]
   \<and> pendingSearch (clearFilters v) = pendingSearch v
   \<and> (pendingSearch v = Some (keyword, due) \<and> due \<le> clock v + ms \<longrightarrow>
        fetchCalls (elapse ms (handleTypeChange ty v)) =
          fetchCalls v @
            [(accountId v, domainId v, searchInput v, if selectedType v = ty then '''' else ty),
             (accountId v, domainId v, keyword, if selectedType v = ty then '''' else ty)]
      \<and> fetchCalls (elapse ms (clearFilters v)) =
          fetchCalls v @
            [(accountId v, domainId v, '''', ''''), (accountId v, domainId v, keyword, '''')])"
  by (simp add: handleTypeChange_def clearFilters_def elapse_def debounceFires_def
      fetchRecords_def Let_def)

text \<open>
  The amended statement at a view where "ex" was just typed: clearing the filters
  fetches with empty filters, and 300 ms later the pending timer fetches "ex".
\<close>

theorem filter_action_fetches_and_keeps_timer_witness:
  "pendingSearch (handleSearchChange ''ex'' (freshView ''acc'' ''example.com'')) = Some (''ex'', 300)
   \<and> fetchCalls (elapse 300 (clearFilters (handleSearchChange ''ex'' (freshView ''acc'' ''example.com'')))) =
       [(''acc'', ''example.com'', '''', ''''), (''acc'', ''example.com'', ''ex'', '''')]"
  using filter_action_fetches_and_keeps_timer
    [of "''A''" "handleSearchChange ''ex'' (freshView ''acc'' ''example.com'')" "''ex''" 300 300]
  by (simp add: handleSearchChange_def debouncedSearch_def freshView_def DEBOUNCE_DELAY_def)

section \<open>Properties of the restore poller\<close>

lemmas restore_defs = checkRestoreStatus_def checkRestoreStatus_resume_def pollTick_def
  pollTick_resume_def invoke_def fetchAccounts_def setInterval_def clearInterval_def
  logger_error_def

lemma run_append:
  "run (xs @ ys) w = (case run xs w of None \<Rightarrow> None | Some w' \<Rightarrow> run ys w')"
  by (induction xs arbitrary: w) (simp_all split: option.splits)

text \<open>
  A round of polling that overlaps no other round and hears "not completed" costs one
  status check and changes nothing else.
\<close>

lemma quietPolls_polling:
  "polling poll n w \<Longrightarrow> \<exists>w'. run (quietPolls poll k) w = Some w' \<and> polling poll (n + k) w'"
proof (induction k arbitrary: n w)
  case 0
  then show ?case by simp
next
  case (Suc k)
  let ?w1 = "(pollTick poll w)\<lparr>unsettled := remove1 (PollCheck poll) (unsettled (pollTick poll w))\<rparr>"
  have "polling poll (Suc n) ?w1"
    using Suc.prems by (simp add: polling_def restore_defs statusChecks_def initialLoads_def)
  from Suc.IH[OF this] obtain w' where
    "run (quietPolls poll k) ?w1 = Some w'" "polling poll (Suc n + k) w'" by blast
  moreover have "run (quietPolls poll (Suc k)) w = run (quietPolls poll k) ?w1"
    using Suc.prems by (simp add: polling_def restore_defs)
  ultimately show ?case by simp
qed

text \<open>
  When the polls do not overlap, the poller does what section 4.6 describes: after any
  number of rounds that hear "not completed", the round that hears "completed" clears
  the timer, ends the restoring state and starts the initial load, once.
\<close>

lemma sequential_polls_load_once:
  "map_option restoreView
     (run ([CallCheckRestoreStatus, Settles FirstCheck (Resolved False)] @ quietPolls 0 k
           @ [IntervalFires 0, Settles (PollCheck 0) (Resolved True)]) initialApp)
     = Some (False, [], k + 2, 1, [])"
proof -
  obtain w1 where w1: "run [CallCheckRestoreStatus, Settles FirstCheck (Resolved False)] initialApp = Some w1"
    and p1: "polling 0 1 w1"
    by (simp add: polling_def restore_defs initialApp_def statusChecks_def initialLoads_def)
  from quietPolls_polling[OF p1, of k] obtain w2 where
    w2: "run (quietPolls 0 k) w1 = Some w2" and p2: "polling 0 (1 + k) w2" by blast
  have "map_option restoreView (run [IntervalFires 0, Settles (PollCheck 0) (Resolved True)] w2)
          = Some (False, [], k + 2, 1, [])"
    using p2 by (simp add: polling_def restore_defs restoreView_def statusChecks_def initialLoads_def)
  moreover have "run ([CallCheckRestoreStatus, Settles FirstCheck (Resolved False)] @ quietPolls 0 k
           @ [IntervalFires 0, Settles (PollCheck 0) (Resolved True)]) initialApp
        = run [IntervalFires 0, Settles (PollCheck 0) (Resolved True)] w2"
    by (simp only: run_append w1 w2 option.case)
  ultimately show ?thesis by (simp only:)
qed

text \<open>
  The error path of the interval callback: the timer is cleared, the restoring state
  ends, and \<^verbatim>\<open>logger.error\<close> writes a diagnostic.
\<close>

lemma poll_error_fails_open:
  "poll \<notin> set (intervals (pollTick_resume poll (Rejected err) w))
   \<and> \<not> isRestoring (pollTick_resume poll (Rejected err) w)
   \<and> logged (pollTick_resume poll (Rejected err) w) =
       logged w @ [''Failed to check restore status: '' @ err]"
  by (simp add: restore_defs)

text \<open>
  C2 as stated fails. Each line gives (isRestoring, active timers, status checks made,
  initial loads started, diagnostics). From the restoring state with timer 0, starting
  the poller again makes a second status check, and when that check hears "not
  completed" a second timer is active beside the first. From the state reached after a
  completed restore, starting the poller again makes a second status check and starts
  a second initial load.
\<close>

theorem restart_not_noop_counterexample:
  "map_option restoreView (run [CallCheckRestoreStatus, Settles FirstCheck (Resolved False)] initialApp)
     = Some (True, [0], 1, 0, [])
   \<and> map_option restoreView (run [CallCheckRestoreStatus, Settles FirstCheck (Resolved False),
                                   CallCheckRestoreStatus] initialApp)
     = Some (True, [0], 2, 0, [])
   \<and> map_option restoreView (run [CallCheckRestoreStatus, Settles FirstCheck (Resolved False),
                                   CallCheckRestoreStatus, Settles FirstCheck (Resolved False)] initialApp)
     = Some (True, [0, 1], 2, 0, [])
   \<and> map_option restoreView (run [CallCheckRestoreStatus, Settles FirstCheck (Resolved True)] initialApp)
     = Some (False, [], 1, 1, [])
   \<and> map_option restoreView (run [CallCheckRestoreStatus, Settles FirstCheck (Resolved True),
                                   CallCheckRestoreStatus, Settles FirstCheck (Resolved True)] initialApp)
     = Some (False, [], 2, 2, [])"
  by (simp add: restore_defs initialApp_def restoreView_def statusChecks_def initialLoads_def)

text \<open>
  C2 as amended. Starting the poller makes one status check whatever the state of the
  store is, and changes nothing else until that check settles. When the check hears
  "not completed", the store is restoring and one new timer is active beside those
  that were; when it hears "completed", one more initial load starts and the timers
  and the restoring flag stay as they were.
\<close>

theorem checkRestoreStatus_always_checks:
  "checkRestoreStatus w =
     w\<lparr>invoked := invoked w @ [''is_restore_completed''], unsettled := unsettled w @ [FirstCheck]\<rparr>
   \<and> statusChecks (checkRestoreStatus w) = Suc (statusChecks w)
   \<and> isRestoring (checkRestoreStatus w) = isRestoring w
   \<and> intervals (checkRestoreStatus w) = intervals w
   \<and> initialLoads (checkRestoreStatus w) = initialLoads w
   \<and> isRestoring (fst (checkRestoreStatus_resume (Resolved False) w))
   \<and> intervals (fst (checkRestoreStatus_resume (Resolved False) w)) = intervals w @ [nextInterval w]
   \<and> initialLoads (fst (checkRestoreStatus_resume (Resolved False) w)) = initialLoads w
   \<and> isRestoring (fst (checkRestoreStatus_resume (Resolved True) w)) = isRestoring w
   \<and> intervals (fst (checkRestoreStatus_resume (Resolved True) w)) = intervals w
   \<and> initialLoads (fst (checkRestoreStatus_resume (Resolved True) w)) = Suc (initialLoads w)"
  by (simp add: restore_defs statusChecks_def initialLoads_def)

text \<open>
  C5, the code at the failing input. The first check hears "not completed" and timer 0
  starts. The timer fires twice before either check settles, then both checks hear
  "completed": the timer is cleared and the restoring state ends, but the initial load
  is started twice.
\<close>

theorem overlapping_polls_load_twice:
  "map_option restoreView
     (run [CallCheckRestoreStatus, Settles FirstCheck (Resolved False),
           IntervalFires 0, IntervalFires 0,
           Settles (PollCheck 0) (Resolved True), Settles (PollCheck 0) (Resolved True)] initialApp)
     = Some (False, [], 3, 2, [])"
  by (simp add: restore_defs initialApp_def restoreView_def statusChecks_def initialLoads_def)

text \<open>
  C6, the code at the failing input. When the first status check is rejected, the
  promise of \<^verbatim>\<open>checkRestoreStatus\<close> is rejected with that error and nothing is
  logged. The same error in a check made by the interval callback is logged.
\<close>

theorem first_check_error_unhandled:
  "map_option restoreView (run [CallCheckRestoreStatus, Settles FirstCheck (Rejected ''backend down'')] initialApp)
     = Some (False, [], 1, 0, [])
   \<and> snd (checkRestoreStatus_resume (Rejected ''backend down'') (checkRestoreStatus initialApp))
     = Some ''backend down''
   \<and> map_option restoreView
       (run [CallCheckRestoreStatus, Settles FirstCheck (Resolved False), IntervalFires 0,
             Settles (PollCheck 0) (Rejected ''backend down'')] initialApp)
     = Some (False, [], 2, 0, [''Failed to check restore status: backend down''])"
  by (simp add: restore_defs initialApp_def restoreView_def statusChecks_def initialLoads_def)

section \<open>Properties of deleteAccount\<close>

lemmas delete_defs = deleteAccount_def deleteAccount_resume_def invoke_def toast_error_def
  toast_success_def clearAccountCache_def removeRecentDomainsByAccount_def

text \<open>
  C3. The continuation of \<^verbatim>\<open>deleteAccount\<close> after a confirmed deletion is one task of
  the event loop. At its end the account is off the list, no cache is keyed by it and
  no recently viewed domain refers to it, while the caches and recent domains of other
  accounts are all kept. The task sends no remote call (the settled call leaves the
  calls that are out, none is added), so it holds no suspension point: the source
  removes the account first and purges next, and nothing can run between the two.
\<close>

theorem account_deletion_purges_in_one_task:
  assumes "step (Settles (DeleteCall aid) (Resolved True)) w = Some w'"
  shows "aid \<notin> acc_id ` set (accounts w')
       \<and> aid \<notin> fst ` fst ` set (domainCaches w')
       \<and> aid \<notin> fst ` set (recentDomains w')
       \<and> filter (\<lambda>entry. fst (fst entry) \<noteq> aid) (domainCaches w) = domainCaches w'
       \<and> filter (\<lambda>entry. fst entry \<noteq> aid) (recentDomains w) = recentDomains w'
       \<and> invoked w' = invoked w
       \<and> unsettled w' = remove1 (DeleteCall aid) (unsettled w)
       \<and> intervals w' = intervals w"
  using assms by (auto simp: delete_defs split: if_splits)

text \<open>
  The theorem at the example of section 8: caches for the keys (A, d1), (A, d2) and
  (B, d1); deleting account A leaves the cache of (B, d1) alone.
\<close>

theorem account_deletion_purges_in_one_task_witness:
  "step (Settles (DeleteCall ''A'') (Resolved True))
      (deleteAccount ''A'' (initialApp\<lparr>
         accounts := [\<lparr>acc_id = ''A'', acc_name = ''first'', acc_provider = ''cloudflare'', acc_status = ''active''\<rparr>,
                      \<lparr>acc_id = ''B'', acc_name = ''second'', acc_provider = ''aliyun'', acc_status = ''active''\<rparr>],
         domainCaches := [((''A'', ''d1''), []), ((''A'', ''d2''), []), ((''B'', ''d1''), [])],
         recentDomains := [(''A'', ''d1''), (''B'', ''d1'')]\<rparr>))
    = Some (initialApp\<lparr>
         accounts := [\<lparr>acc_id = ''B'', acc_name = ''second'', acc_provider = ''aliyun'', acc_status = ''active''\<rparr>],
         domainCaches := [((''B'', ''d1''), [])],
         recentDomains := [(''B'', ''d1'')],
         toasts := [ToastSuccess ''account.deleteSuccess''],
         invoked := [''delete_account'']\<rparr>)
   \<and> ''A'' \<notin> fst ` fst ` set [((''B'', ''d1''), [])]"
  using account_deletion_purges_in_one_task
    [of "''A''" "deleteAccount ''A'' (initialApp\<lparr>
         accounts := [\<lparr>acc_id = ''A'', acc_name = ''first'', acc_provider = ''cloudflare'', acc_status = ''active''\<rparr>,
                      \<lparr>acc_id = ''B'', acc_name = ''second'', acc_provider = ''aliyun'', acc_status = ''active''\<rparr>],
         domainCaches := [((''A'', ''d1''), []), ((''A'', ''d2''), []), ((''B'', ''d1''), [])],
         recentDomains := [(''A'', ''d1''), (''B'', ''d1'')]\<rparr>)"
       "initialApp\<lparr>
         accounts := [\<lparr>acc_id = ''B'', acc_name = ''second'', acc_provider = ''aliyun'', acc_status = ''active''\<rparr>],
         domainCaches := [((''B'', ''d1''), [])],
         recentDomains := [(''B'', ''d1'')],
         toasts := [ToastSuccess ''account.deleteSuccess''],
         invoked := [''delete_account'']\<rparr>"]
  by (simp add: delete_defs initialApp_def)

text \<open>
  C10. The first part of \<^verbatim>\<open>deleteAccount\<close>, up to the remote call, touches neither
  the account list, the selection, the caches nor the recent domains. The second part
  runs when the remote call settles, on the store \<open>w\<close> as it is then. If the remote
  delete answered with failure or threw, the call returns false and all four are as in
  \<open>w\<close>. If it answered with success, the call returns true, the account list is that
  of \<open>w\<close> without the entries of that id, in the same order, and the selection is
  cleared exactly when it was that id, and kept otherwise.
\<close>

theorem deleteAccount_atomic_on_failure:
  assumes "deleteAccount_resume aid resp w = (w', result)"
  shows "accounts (deleteAccount aid v) = accounts v
       \<and> selectedAccountId (deleteAccount aid v) = selectedAccountId v
       \<and> domainCaches (deleteAccount aid v) = domainCaches v
       \<and> recentDomains (deleteAccount aid v) = recentDomains v
       \<and> (resp \<noteq> Resolved True \<longrightarrow>
            \<not> result \<and> accounts w' = accounts w \<and> selectedAccountId w' = selectedAccountId w
            \<and> domainCaches w' = domainCaches w \<and> recentDomains w' = recentDomains w)
       \<and> (resp = Resolved True \<longrightarrow>
            result \<and> accounts w' = filter (\<lambda>a. acc_id a \<noteq> aid) (accounts w)
            \<and> selectedAccountId w' =
                (if selectedAccountId w = Some aid then None else selectedAccountId w)
            \<and> (selectedAccountId w \<noteq> None \<longrightarrow>
                 (selectedAccountId w' = None \<longleftrightarrow> selectedAccountId w = Some aid)))"
proof (cases resp)
  case (Resolved success)
  with assms show ?thesis
    by (cases success) (auto simp: delete_defs)
next
  case (Rejected err)
  with assms show ?thesis by (auto simp: delete_defs)
qed

text \<open>
  The theorem at a store holding the one, selected, account A: a remote call that
  throws leaves list and selection alone, a successful one empties both.
\<close>

theorem deleteAccount_atomic_on_failure_witness:
  "deleteAccount_resume ''A'' (Rejected ''timeout'')
      (deleteAccount ''A'' (initialApp\<lparr>
         accounts := [\<lparr>acc_id = ''A'', acc_name = ''first'', acc_provider = ''cloudflare'', acc_status = ''active''\<rparr>],
         selectedAccountId := Some ''A''\<rparr>))
    = (initialApp\<lparr>
         accounts := [\<lparr>acc_id = ''A'', acc_name = ''first'', acc_provider = ''cloudflare'', acc_status = ''active''\<rparr>],
         selectedAccountId := Some ''A'',
         toasts := [ToastError ''timeout''],
         invoked := [''delete_account''],
         unsettled := [DeleteCall ''A'']\<rparr>, False)
   \<and> deleteAccount_resume ''A'' (Resolved True)
      (deleteAccount ''A'' (initialApp\<lparr>
         accounts := [\<lparr>acc_id = ''A'', acc_name = ''first'', acc_provider = ''cloudflare'', acc_status = ''active''\<rparr>],
         selectedAccountId := Some ''A''\<rparr>))
    = (initialApp\<lparr>
         accounts := [],
         selectedAccountId := None,
         toasts := [ToastSuccess ''account.deleteSuccess''],
         invoked := [''delete_account''],
         unsettled := [DeleteCall ''A'']\<rparr>, True)"
proof -
  let ?w = "initialApp\<lparr>
         accounts := [\<lparr>acc_id = ''A'', acc_name = ''first'', acc_provider = ''cloudflare'', acc_status = ''active''\<rparr>],
         selectedAccountId := Some ''A''\<rparr>"
  have fail: "deleteAccount_resume ''A'' (Rejected ''timeout'') (deleteAccount ''A'' ?w)
    = (initialApp\<lparr>
         accounts := [\<lparr>acc_id = ''A'', acc_name = ''first'', acc_provider = ''cloudflare'', acc_status = ''active''\<rparr>],
         selectedAccountId := Some ''A'',
         toasts := [ToastError ''timeout''],
         invoked := [''delete_account''],
         unsettled := [DeleteCall ''A'']\<rparr>, False)"
    by (simp add: delete_defs initialApp_def)
  have ok: "deleteAccount_resume ''A'' (Resolved True) (deleteAccount ''A'' ?w)
    = (initialApp\<lparr>
         accounts := [],
         selectedAccountId := None,
         toasts := [ToastSuccess ''account.deleteSuccess''],
         invoked := [''delete_account''],
         unsettled := [DeleteCall ''A'']\<rparr>, True)"
    by (simp add: delete_defs initialApp_def)
  note t1 = deleteAccount_atomic_on_failure[OF fail]
  note t2 = deleteAccount_atomic_on_failure[OF ok]
  from fail ok t1 t2 show ?thesis by (simp only:)
qed

section \<open>Properties of the record cache\<close>

lemmas cache_defs = loadFull_def fetchMoreRecords_def respond_def commit_def beginFetch_def
  superseded_def fetchesOut_def outCount_def currentFull_def isLoading_def isLoadingMore_def
  handleObserver_def


lemma loadFull_generation: "loadGeneration (fst (loadFull kw ty c)) = Suc (loadGeneration c)"
  by (simp add: cache_defs Let_def)

lemma loadFull_token: "tok_generation (snd (loadFull kw ty c)) = Suc (loadGeneration c)"
  by (simp add: cache_defs Let_def)

lemma fetchMoreRecords_generation: "loadGeneration (fst (fetchMoreRecords c)) = loadGeneration c"
  by (simp add: cache_defs Let_def)

lemma respond_generation: "loadGeneration (respond t r c) = loadGeneration c"
  by (cases r) (simp_all add: cache_defs Let_def split: fetch_kind.splits)


lemma cacheStep_generation: "cacheStep e c = Some c' \<Longrightarrow> loadGeneration c \<le> loadGeneration c'"
  by (cases e)
     (auto simp: loadFull_generation fetchMoreRecords_generation respond_generation
        handleObserver_def split: if_splits)

lemma cacheRun_generation: "cacheRun es c = Some c' \<Longrightarrow> loadGeneration c \<le> loadGeneration c'"
proof (induction es arbitrary: c)
  case Nil
  then show ?case by simp
next
  case (Cons e es)
  then obtain d where d: "cacheStep e c = Some d" and r: "cacheRun es d = Some c'"
    by (auto split: option.splits)
  from cacheStep_generation[OF d] Cons.IH[OF r] show ?case by simp
qed

lemma superseded_response_ignored:
  assumes "tok_generation t < loadGeneration c"
  shows "sharedState (respond t r c) = sharedState c"
  using assms by (cases r) (simp_all add: cache_defs sharedState_def Let_def)

lemma live_full_commit:
  assumes "tok_generation t = loadGeneration c" and "tok_kind t = Full"
  shows "sharedState (respond t (Fetched res) c) =
           (res_items res, tok_keyword t, tok_type t, res_nextCursor res, res_totalCount res,
            res_hasMore res)"
  using assms by (simp add: cache_defs sharedState_def Let_def)

text \<open>
  C1. Two full fetches are issued for the same key, the second after the first, with
  anything happening in between. The first carries the smaller generation. Once the
  answer to the second has been committed, the shared state is what that answer and
  the filters of the second fetch make it, and the late answer to the first, whatever it
  is, leaves it so. More generally, from the moment the second fetch is issued, an
  answer to the first never changes the shared state or the generation, whatever
  happened in the meantime.
\<close>

theorem stale_response_rejected:
  assumes "loadFull kw1 ty1 c = (c1, t1)"
      and "cacheRun between c1 = Some d"
      and "loadFull kw2 ty2 d = (c2, t2)"
      and "cacheRun later c2 = Some e"
  shows "tok_generation t1 < tok_generation t2
       \<and> sharedState (respond t2 (Fetched res2) c2) =
           (res_items res2, kw2, ty2, res_nextCursor res2, res_totalCount res2, res_hasMore res2)
       \<and> sharedState (respond t1 r1 (respond t2 (Fetched res2) c2)) =
           sharedState (respond t2 (Fetched res2) c2)
       \<and> sharedState (respond t1 r1 e) = sharedState e
       \<and> loadGeneration (respond t1 r1 e) = loadGeneration e"
proof -
  have g1: "tok_generation t1 = Suc (loadGeneration c)" and gc1: "loadGeneration c1 = Suc (loadGeneration c)"
    using assms(1) loadFull_token[of kw1 ty1 c] loadFull_generation[of kw1 ty1 c] by simp_all
  have g2: "tok_generation t2 = Suc (loadGeneration d)" and gc2: "loadGeneration c2 = Suc (loadGeneration d)"
    using assms(3) loadFull_token[of kw2 ty2 d] loadFull_generation[of kw2 ty2 d] by simp_all
  have k2: "tok_kind t2 = Full" "tok_keyword t2 = kw2" "tok_type t2 = ty2"
    using assms(3) by (auto simp: cache_defs Let_def)
  have le1: "loadGeneration c1 \<le> loadGeneration d" by (rule cacheRun_generation[OF assms(2)])
  have le2: "loadGeneration c2 \<le> loadGeneration e" by (rule cacheRun_generation[OF assms(4)])
  have lt: "tok_generation t1 < tok_generation t2" using g1 gc1 g2 le1 by simp
  have a: "sharedState (respond t2 (Fetched res2) c2) =
           (res_items res2, kw2, ty2, res_nextCursor res2, res_totalCount res2, res_hasMore res2)"
    using live_full_commit[of t2 c2 res2] g2 gc2 k2 by simp
  have "tok_generation t1 < loadGeneration (respond t2 (Fetched res2) c2)"
    using lt g2 gc2 by (simp add: respond_generation)
  then have b: "sharedState (respond t1 r1 (respond t2 (Fetched res2) c2)) =
           sharedState (respond t2 (Fetched res2) c2)"
    by (rule superseded_response_ignored)
  have "tok_generation t1 < loadGeneration e" using lt g2 gc2 le2 by simp
  then have c: "sharedState (respond t1 r1 e) = sharedState e"
    by (rule superseded_response_ignored)
  from lt a b c show ?thesis by (simp add: respond_generation)
qed

text \<open>
  The theorem at two keystrokes: a full fetch for "e" and then one for "ex" from the
  empty cache. The answer for "ex" is committed first; the answer for "e", with two
  records, arrives last and is dropped.
\<close>

theorem stale_response_rejected_witness:
  "loadFull ''e'' '''' emptyCache =
     (fst (loadFull ''e'' '''' emptyCache), snd (loadFull ''e'' '''' emptyCache))
   \<and> tok_generation (snd (loadFull ''e'' '''' emptyCache)) = 1
   \<and> tok_generation (snd (loadFull ''ex'' '''' (fst (loadFull ''e'' '''' emptyCache)))) = 2
   \<and> sharedState
        (respond (snd (loadFull ''e'' '''' emptyCache))
           (Fetched \<lparr>res_items = [\<lparr>rec_id = ''1'', rec_type = ''A'', rec_name = ''e'', rec_value = ''x'', rec_ttl = 60\<rparr>,
                                  \<lparr>rec_id = ''2'', rec_type = ''A'', rec_name = ''ex'', rec_value = ''y'', rec_ttl = 60\<rparr>],
                      res_totalCount = 2, res_nextCursor = 2, res_hasMore = False\<rparr>)
           (respond (snd (loadFull ''ex'' '''' (fst (loadFull ''e'' '''' emptyCache))))
              (Fetched \<lparr>res_items = [\<lparr>rec_id = ''2'', rec_type = ''A'', rec_name = ''ex'', rec_value = ''y'', rec_ttl = 60\<rparr>],
                         res_totalCount = 1, res_nextCursor = 2, res_hasMore = False\<rparr>)
              (fst (loadFull ''ex'' '''' (fst (loadFull ''e'' '''' emptyCache))))))
      = ([\<lparr>rec_id = ''2'', rec_type = ''A'', rec_name = ''ex'', rec_value = ''y'', rec_ttl = 60\<rparr>],
         ''ex'', '''', 2, 1, False)"
  using stale_response_rejected
    [of "''e''" "''''" emptyCache "fst (loadFull ''e'' '''' emptyCache)"
        "snd (loadFull ''e'' '''' emptyCache)" "[]" "fst (loadFull ''e'' '''' emptyCache)"
        "''ex''" "''''" "fst (loadFull ''ex'' '''' (fst (loadFull ''e'' '''' emptyCache)))"
        "snd (loadFull ''ex'' '''' (fst (loadFull ''e'' '''' emptyCache)))" "[]"
        "fst (loadFull ''ex'' '''' (fst (loadFull ''e'' '''' emptyCache)))"
        "\<lparr>res_items = [\<lparr>rec_id = ''2'', rec_type = ''A'', rec_name = ''ex'', rec_value = ''y'', rec_ttl = 60\<rparr>],
          res_totalCount = 1, res_nextCursor = 2, res_hasMore = False\<rparr>"
        "Fetched \<lparr>res_items = [\<lparr>rec_id = ''1'', rec_type = ''A'', rec_name = ''e'', rec_value = ''x'', rec_ttl = 60\<rparr>,
                                  \<lparr>rec_id = ''2'', rec_type = ''A'', rec_name = ''ex'', rec_value = ''y'', rec_ttl = 60\<rparr>],
                      res_totalCount = 2, res_nextCursor = 2, res_hasMore = False\<rparr>"]
  by (simp add: loadFull_token loadFull_generation emptyCache_def)















end
